theory Spec2Isabelle
  imports Main "HOL-Library.AList"
begin

section \<open>The toolbox package manager (src/toolbox.py)\<close>

text \<open>
  The embedding follows \<^verbatim>\<open>src/toolbox.py\<close> function by function. What the program
  reaches outside itself is a field of the \<open>world\<close> record: the platform identifier
  (\<^verbatim>\<open>platform.system()\<close>), the application-data roots, the directory tree, the files
  below it, the remote servers, the lines typed at the prompt and the clock.

  Conventions of the model:
  \<^item> a path is the list of its components, compared as strings; package names are single
    path components, other than the manager's own \<^verbatim>\<open>toolbox\<close> and \<^verbatim>\<open>record.json\<close>;
  \<^item> the content of a file is the list of its bytes;
  \<^item> strings are ASCII (\<^verbatim>\<open>str.lower\<close> and \<^verbatim>\<open>str.strip\<close> are modelled on ASCII);
  \<^item> the catalog file and the record file are kept by the document they hold
    (\<^verbatim>\<open>json.load\<close> of what \<^verbatim>\<open>json.dump\<close> wrote is that document), apart from the
    tree of installation directories, whose files hold bytes;
  \<^item> \<^verbatim>\<open>handle_error\<close> prints and calls \<^verbatim>\<open>sys.exit(1)\<close>; \<^verbatim>\<open>SystemExit\<close> is not an
    \<^verbatim>\<open>Exception\<close>, so no \<^verbatim>\<open>except Exception\<close> handler catches it: every
    \<^verbatim>\<open>handle_error\<close> call is a final \<open>Inl\<close> result naming the call site.
\<close>

subsection \<open>Data\<close>

type_synonym path = "string list"
type_synonym bytes = "nat list"

record package =
  name :: string
  version :: string
  description :: string
  os :: "string list"
  requirepath :: bool
  shortcut :: bool
  url :: "(string \<times> string) list"
  sha256 :: "(string \<times> string) list"

record catalog =
  updateurl :: "string option"
  packages :: "package list"

text \<open>What a catalog file holds: something \<^verbatim>\<open>json.load\<close> rejects, or a catalog.\<close>

datatype catalog_doc = CatalogCorrupt | CatalogDoc catalog

record entry =
  entry_version :: string
  installed_on :: string

type_synonym record_map = "(string \<times> entry) list"

datatype record_file = RecordAbsent | RecordCorrupt | RecordDoc record_map

text \<open>The exceptions of Python that the program can meet, and the places where
  \<^verbatim>\<open>handle_error\<close> is called (named as in the specification's taxonomy).\<close>

datatype exn =
    FileNotFoundError | JSONDecodeError | KeyError | EOFError | URLError
  | FileExistsError | NotADirectoryError | IsADirectoryError | OSError | RecursionError

datatype error =
    CatalogUnavailable exn
  | CatalogMissing
  | PackageNotFound
  | UnsupportedPlatform
  | IntegrityFailure
  | InstallError exn
  | NotInstalled
  | UninstallFailed exn

datatype outcome = Installed | Cancelled | Uninstalled | Finished

record world =
  platform_system :: string
  appdata :: path
  home :: path
  dirs :: "path list"
  files :: "(path \<times> bytes) list"
  catalog_store :: "catalog_doc option"
  record_store :: record_file
  remote_catalog :: "catalog_doc option"
  remote :: "(string \<times> bytes) list"
  net_log :: "string list"
  stdin :: "string list"
  clock :: "nat \<Rightarrow> string"
  ticks :: nat
  rm_fails :: "path list"
  shortcuts :: "(string \<times> path) list"

subsection \<open>Strings\<close>

definition lower_char :: "char \<Rightarrow> char" where
  "lower_char c =
     (let n = (of_char c :: nat) in if 65 \<le> n \<and> n \<le> 90 then char_of (n + 32) else c)"

definition py_lower :: "string \<Rightarrow> string" where
  "py_lower s = map lower_char s"

definition is_space :: "char \<Rightarrow> bool" where
  "is_space c = ((of_char c :: nat) \<in> {9, 10, 11, 12, 13, 28, 29, 30, 31, 32})"

definition py_strip :: "string \<Rightarrow> string" where
  "py_strip s = rev (dropWhile is_space (rev (dropWhile is_space s)))"

text \<open>\<^verbatim>\<open>s.split('.')\<close>: the pieces between the dots, never an empty list.\<close>

fun split_acc :: "char \<Rightarrow> string \<Rightarrow> string \<Rightarrow> string list" where
  "split_acc d cur [] = [rev cur]"
| "split_acc d cur (c # cs) =
     (if c = d then rev cur # split_acc d [] cs else split_acc d (c # cur) cs)"

definition py_split :: "char \<Rightarrow> string \<Rightarrow> string list" where
  "py_split d s = split_acc d [] s"

subsection \<open>Paths\<close>

definition app_root :: "world \<Rightarrow> path" where
  "app_root w =
     (if platform_system w = ''Windows'' then appdata w
      else home w @ [''Library'', ''Application Support''])"

definition get_package_file_path :: "world \<Rightarrow> path" where
  "get_package_file_path w = app_root w @ [''ravendevteam'', ''toolbox'', ''packages.json'']"

definition get_installation_path :: "world \<Rightarrow> string \<Rightarrow> path" where
  "get_installation_path w package_name = app_root w @ [''ravendevteam'', package_name]"

definition get_record_file_path :: "world \<Rightarrow> path" where
  "get_record_file_path w = app_root w @ [''ravendevteam'', ''record.json'']"

subsection \<open>The directory tree\<close>

definition is_file :: "world \<Rightarrow> path \<Rightarrow> bool" where
  "is_file w p = (map_of (files w) p \<noteq> None)"

definition is_dir :: "world \<Rightarrow> path \<Rightarrow> bool" where
  "is_dir w p = (p \<in> set (dirs w))"

definition path_exists :: "world \<Rightarrow> path \<Rightarrow> bool" where
  "path_exists w p = (is_dir w p \<or> is_file w p)"

definition lineage :: "path \<Rightarrow> path list" where
  "lineage p = map (\<lambda>n. take n p) [1..<Suc (length p)]"

text \<open>\<^verbatim>\<open>p.mkdir(parents=True, exist_ok=True)\<close>.\<close>

definition mkdir_p :: "world \<Rightarrow> path \<Rightarrow> exn + world" where
  "mkdir_p w p =
     (if is_file w p then Inl FileExistsError
      else if list_ex (is_file w) (lineage p) then Inl NotADirectoryError
      else Inr (w\<lparr>dirs := dirs w @ filter (\<lambda>q. \<not> is_dir w q) (lineage p)\<rparr>))"

subsection \<open>The installation record store\<close>

definition read_record :: "world \<Rightarrow> record_map" where
  "read_record w =
     (case record_store w of
        RecordAbsent \<Rightarrow> []
      | RecordCorrupt \<Rightarrow> []
      | RecordDoc m \<Rightarrow> m)"

definition write_record :: "world \<Rightarrow> record_map \<Rightarrow> exn + world" where
  "write_record w m =
     (case mkdir_p w (butlast (get_record_file_path w)) of
        Inl e \<Rightarrow> Inl e
      | Inr w1 \<Rightarrow> Inr (w1\<lparr>record_store := RecordDoc m\<rparr>))"

text \<open>Lines 226 to 231 of \<^verbatim>\<open>install_package\<close>: load, set the entry, save.\<close>

definition upsert_record :: "world \<Rightarrow> string \<Rightarrow> string \<Rightarrow> string \<Rightarrow> exn + world" where
  "upsert_record w package_name v t =
     write_record w
       (AList.update package_name \<lparr>entry_version = v, installed_on = t\<rparr> (read_record w))"


subsection \<open>The integrity verifier\<close>

text \<open>\<^verbatim>\<open>hashlib.sha256\<close> is a library: it enters as a parameter, an object with
  \<^verbatim>\<open>update\<close> and \<^verbatim>\<open>hexdigest\<close>.\<close>

record 's hasher =
  h_new :: 's
  h_update :: "'s \<Rightarrow> bytes \<Rightarrow> 's"
  h_hexdigest :: "'s \<Rightarrow> string"

text \<open>\<^verbatim>\<open>iter(lambda: f.read(n), b"")\<close>: the blocks read until the first empty one.\<close>

function read_blocks :: "nat \<Rightarrow> bytes \<Rightarrow> bytes list" where
  "read_blocks n bs =
     (if n = 0 \<or> bs = [] then [] else take n bs # read_blocks n (drop n bs))"
  by pat_completeness auto
termination
  by (relation "measure (\<lambda>(n, bs). length bs)") auto

text \<open>Lines 129 to 132 of \<^verbatim>\<open>validate_checksum\<close>: the digest of the blocks, fed one by
  one.\<close>

definition stream_digest :: "'s hasher \<Rightarrow> bytes \<Rightarrow> string" where
  "stream_digest H content =
     h_hexdigest H
       (fold (\<lambda>byte_block s. h_update H s byte_block) (read_blocks 4096 content) (h_new H))"

definition validate_checksum :: "'s hasher \<Rightarrow> world \<Rightarrow> path \<Rightarrow> string \<Rightarrow> exn + bool" where
  "validate_checksum H w file_path expected_hash =
     (case map_of (files w) file_path of
        None \<Rightarrow> Inl (if is_dir w file_path then IsADirectoryError else FileNotFoundError)
      | Some content \<Rightarrow> Inr (stream_digest H content = expected_hash))"

subsection \<open>The catalog store\<close>

definition catalog_url :: string where
  "catalog_url = ''https://raw.githubusercontent.com/ravendevteam/toolbox/main/packages.json''"

definition ensure_packages_file :: "world \<Rightarrow> error option \<times> world" where
  "ensure_packages_file w =
     (if catalog_store w \<noteq> None then (None, w)
      else case mkdir_p w (butlast (get_package_file_path w)) of
          Inl e \<Rightarrow> (Some (CatalogUnavailable e), w)
        | Inr w1 \<Rightarrow>
            (let w2 = w1\<lparr>net_log := net_log w1 @ [catalog_url]\<rparr>
             in case remote_catalog w2 of
                  None \<Rightarrow> (Some (CatalogUnavailable URLError), w2)
                | Some c \<Rightarrow> (None, w2\<lparr>catalog_store := Some c\<rparr>)))"

text \<open>The \<^verbatim>\<open>except\<close> clauses of \<^verbatim>\<open>install_package\<close>.\<close>

definition install_handler :: "exn \<Rightarrow> error" where
  "install_handler e = (if e = FileNotFoundError then CatalogMissing else InstallError e)"

definition load_packages :: "world \<Rightarrow> error + package list" where
  "load_packages w =
     (case catalog_store w of
        None \<Rightarrow> Inl (install_handler FileNotFoundError)
      | Some CatalogCorrupt \<Rightarrow> Inl (install_handler JSONDecodeError)
      | Some (CatalogDoc data) \<Rightarrow> Inr (packages data))"

definition find_package :: "package list \<Rightarrow> string \<Rightarrow> package option" where
  "find_package pkgs package_name =
     find (\<lambda>pkg. py_lower (name pkg) = py_lower package_name) pkgs"

subsection \<open>Prompt, fetch, shortcut\<close>

text \<open>\<^verbatim>\<open>input(...).strip().lower()\<close> compared with \<^verbatim>\<open>'y'\<close>, unless confirmation is
  skipped.\<close>

definition confirm :: "world \<Rightarrow> bool \<Rightarrow> (exn + bool) \<times> world" where
  "confirm w skip_confirmation =
     (if skip_confirmation then (Inr True, w)
      else case stdin w of
          [] \<Rightarrow> (Inl EOFError, w)
        | l # ls \<Rightarrow> (Inr (py_lower (py_strip l) = ''y''), w\<lparr>stdin := ls\<rparr>))"

definition urlretrieve :: "world \<Rightarrow> string \<Rightarrow> path \<Rightarrow> exn option \<times> world" where
  "urlretrieve w u dest =
     (let w1 = w\<lparr>net_log := net_log w @ [u]\<rparr>
      in case map_of (remote w1) u of
           None \<Rightarrow> (Some URLError, w1)
         | Some b \<Rightarrow>
             if is_dir w1 dest then (Some IsADirectoryError, w1)
             else if \<not> is_dir w1 (butlast dest) then (Some FileNotFoundError, w1)
             else (None, w1\<lparr>files := AList.update dest b (files w1)\<rparr>))"

text \<open>\<^verbatim>\<open>next(install_path.glob('*'), None)\<close>: the order in which the system lists a
  directory is not the program's; the model lists the files, then the directories.
  \<^verbatim>\<open>create_shortcut\<close> swallows its own failures and touches nothing the manager reads:
  the model logs the request.\<close>

definition first_child :: "world \<Rightarrow> path \<Rightarrow> path option" where
  "first_child w d = find (\<lambda>q. q \<noteq> [] \<and> butlast q = d) (map fst (files w) @ dirs w)"

definition create_shortcut :: "world \<Rightarrow> path \<Rightarrow> string \<Rightarrow> world" where
  "create_shortcut w target shortcut_name =
     w\<lparr>shortcuts := shortcuts w @ [(shortcut_name, target)]\<rparr>"


subsection \<open>Install\<close>

text \<open>Line 211: the file name of the artifact,
  \<^verbatim>\<open>f"{package_name}.{url.split('.')[-1]}"\<close>.\<close>

definition artifact_name :: "string \<Rightarrow> string \<Rightarrow> string" where
  "artifact_name package_name u = package_name @ ''.'' @ last (py_split (CHR ''.'') u)"

text \<open>Lines 206 to 231 of \<^verbatim>\<open>install_package\<close>: what follows the confirmation.\<close>

definition fetch_and_record ::
  "'s hasher \<Rightarrow> world \<Rightarrow> package \<Rightarrow> string \<Rightarrow> (error + outcome) \<times> world" where
  "fetch_and_record H w pkg package_name =
     (case map_of (url pkg) (platform_system w) of
        None \<Rightarrow> (Inl (install_handler KeyError), w)
      | Some u \<Rightarrow>
     (case map_of (sha256 pkg) (platform_system w) of
        None \<Rightarrow> (Inl (install_handler KeyError), w)
      | Some h \<Rightarrow>
     (let install_path = get_installation_path w package_name
      in case mkdir_p w install_path of
        Inl e \<Rightarrow> (Inl (install_handler e), w)
      | Inr w1 \<Rightarrow>
     (let download_path = install_path @ [artifact_name package_name u]
      in case urlretrieve w1 u download_path of
        (Some e, w2) \<Rightarrow> (Inl (install_handler e), w2)
      | (None, w2) \<Rightarrow>
     (case validate_checksum H w2 download_path h of
        Inl e \<Rightarrow> (Inl (install_handler e), w2)
      | Inr False \<Rightarrow> (Inl IntegrityFailure, w2)
      | Inr True \<Rightarrow>
          if path_exists w2 install_path then
            (let w3 = (if shortcut pkg
                       then (case first_child w2 install_path of
                               None \<Rightarrow> w2
                             | Some target \<Rightarrow> create_shortcut w2 target package_name)
                       else w2);
                 t = clock w3 (ticks w3);
                 w4 = w3\<lparr>ticks := Suc (ticks w3)\<rparr>
             in case upsert_record w4 package_name (version pkg) t of
                  Inl e \<Rightarrow> (Inl (install_handler e), w4)
                | Inr w5 \<Rightarrow> (Inr Installed, w5))
          else (Inr Finished, w2))))))"

text \<open>Lines 195 to 205: resolve the descriptor, check the platform, ask.\<close>

definition install_from ::
  "'s hasher \<Rightarrow> world \<Rightarrow> package list \<Rightarrow> string \<Rightarrow> bool \<Rightarrow> (error + outcome) \<times> world" where
  "install_from H w pkgs package_name skip_confirmation =
     (case find_package pkgs package_name of
        None \<Rightarrow> (Inl PackageNotFound, w)
      | Some pkg \<Rightarrow>
          if platform_system w \<notin> set (os pkg) then (Inl UnsupportedPlatform, w)
          else (case confirm w skip_confirmation of
                  (Inl e, w1) \<Rightarrow> (Inl (install_handler e), w1)
                | (Inr False, w1) \<Rightarrow> (Inr Cancelled, w1)
                | (Inr True, w1) \<Rightarrow> fetch_and_record H w1 pkg package_name))"

text \<open>The loop of the wildcard install: a call that ends in \<^verbatim>\<open>handle_error\<close> ends the
  process, any other call is followed by the next package.\<close>

fun install_each ::
  "(world \<Rightarrow> string \<Rightarrow> (error + outcome) \<times> world) \<Rightarrow> world \<Rightarrow> string list
     \<Rightarrow> (error + outcome) \<times> world" where
  "install_each f w [] = (Inr Finished, w)"
| "install_each f w (n # ns) =
     (case f w n of
        (Inl e, w1) \<Rightarrow> (Inl e, w1)
      | (Inr r, w1) \<Rightarrow> install_each f w1 ns)"

text \<open>\<^verbatim>\<open>install_package\<close>. The first argument after the hasher bounds the depth of the
  Python call stack: the wildcard branch calls \<^verbatim>\<open>install_package\<close> again, and a
  catalog with a package named \<^verbatim>\<open>*\<close> recurses until \<^verbatim>\<open>RecursionError\<close>.\<close>

primrec install_package ::
  "'s hasher \<Rightarrow> nat \<Rightarrow> world \<Rightarrow> string \<Rightarrow> bool \<Rightarrow> (error + outcome) \<times> world" where
  "install_package H 0 w package_name skip_confirmation =
     (Inl (install_handler RecursionError), w)"
| "install_package H (Suc depth) w package_name skip_confirmation =
     (case ensure_packages_file w of
        (Some e, w1) \<Rightarrow> (Inl e, w1)
      | (None, w1) \<Rightarrow>
          (case load_packages w1 of
             Inl e \<Rightarrow> (Inl e, w1)
           | Inr pkgs \<Rightarrow>
               if package_name = ''*''
               then install_each (\<lambda>w' n. install_package H depth w' n skip_confirmation)
                      w1 (map name pkgs)
               else install_from H w1 pkgs package_name skip_confirmation))"

subsection \<open>Uninstall\<close>

text \<open>\<^verbatim>\<open>shutil.rmtree\<close>: the paths of \<open>rm_fails\<close> are those whose removal the system
  refuses (permissions, a file in use). What a refused removal had already deleted is not
  modelled: the tree is left as it was.\<close>

definition rmtree :: "world \<Rightarrow> path \<Rightarrow> exn + world" where
  "rmtree w p =
     (if p \<in> set (rm_fails w) then Inl OSError
      else if \<not> is_dir w p then Inl NotADirectoryError
      else Inr (w\<lparr>dirs := filter (\<lambda>q. take (length p) q \<noteq> p) (dirs w),
                  files := filter (\<lambda>(q, b). take (length p) q \<noteq> p) (files w)\<rparr>))"

definition uninstall_package :: "world \<Rightarrow> string \<Rightarrow> bool \<Rightarrow> (error + outcome) \<times> world" where
  "uninstall_package w package_name skip_confirmation =
     (let install_path = get_installation_path w package_name
      in if \<not> path_exists w install_path then (Inl NotInstalled, w)
         else (case confirm w skip_confirmation of
                 (Inl e, w1) \<Rightarrow> (Inl (UninstallFailed e), w1)
               | (Inr False, w1) \<Rightarrow> (Inr Cancelled, w1)
               | (Inr True, w1) \<Rightarrow>
                   (case rmtree w1 install_path of
                      Inl e \<Rightarrow> (Inl (UninstallFailed e), w1)
                    | Inr w2 \<Rightarrow>
                        (let record = read_record w2
                         in if map_of record package_name \<noteq> None
                            then (case write_record w2 (AList.delete package_name record) of
                                    Inl e \<Rightarrow> (Inl (UninstallFailed e), w2)
                                  | Inr w3 \<Rightarrow> (Inr Uninstalled, w3))
                            else (Inr Uninstalled, w2)))))"


subsection \<open>A small world for the examples\<close>

text \<open>A stand-in for \<^verbatim>\<open>hashlib\<close> in the examples: the state is the bytes fed so far,
  the digest their lowercase hexadecimal print.\<close>

definition hex_digit :: "nat \<Rightarrow> char" where
  "hex_digit n = (''0123456789abcdef'') ! (n mod 16)"

definition hex_hasher :: "bytes hasher" where
  "hex_hasher =
     \<lparr>h_new = [], h_update = (\<lambda>s b. s @ b),
      h_hexdigest = (\<lambda>s. concat (map (\<lambda>b. [hex_digit (b div 16), hex_digit b]) s))\<rparr>"

definition foo_pkg :: package where
  "foo_pkg =
     \<lparr>name = ''foo'', version = ''1.0'', description = ''a tool'', os = [''Windows''],
      requirepath = False, shortcut = True,
      url = [(''Windows'', ''http://h/foo.zip'')], sha256 = [(''Windows'', ''ab02'')]\<rparr>"

definition bar_pkg :: package where
  "bar_pkg =
     \<lparr>name = ''bar'', version = ''2.1'', description = ''another'', os = [''Windows''],
      requirepath = False, shortcut = False,
      url = [(''Windows'', ''http://h/bar.exe'')], sha256 = [(''Windows'', ''ffff'')]\<rparr>"

definition baz_pkg :: package where
  "baz_pkg =
     \<lparr>name = ''baz'', version = ''0.3'', description = ''a third'', os = [''Darwin''],
      requirepath = True, shortcut = False,
      url = [(''Darwin'', ''http://h/baz'')], sha256 = [(''Darwin'', ''07'')]\<rparr>"

definition demo_world :: world where
  "demo_world =
     \<lparr>platform_system = ''Windows'', appdata = [''C:'', ''AppData''], home = [''C:'', ''Users''],
      dirs = [[''C:''], [''C:'', ''AppData'']], files = [],
      catalog_store =
        Some (CatalogDoc \<lparr>updateurl = None, packages = [foo_pkg, bar_pkg, baz_pkg]\<rparr>),
      record_store = RecordAbsent,
      remote_catalog = Some (CatalogDoc \<lparr>updateurl = None, packages = [baz_pkg, foo_pkg]\<rparr>),
      remote = [(''http://h/foo.zip'', [171, 2]), (''http://h/bar.exe'', [0, 0]),
                (''http://h/baz'', [7])],
      net_log = [], stdin = [], clock = (\<lambda>n. ''2024-01-01T00:00:0'' @ [hex_digit n]),
      ticks = 0, rm_fails = [], shortcuts = []\<rparr>"

definition one_file_world :: world where
  "one_file_world = demo_world\<lparr>files := [([''C:'', ''f.bin''], [171, 2])]\<rparr>"

text \<open>The same world before any catalog was fetched: the remote catalog offers
  \<open>baz\<close>, a package for Darwin, and \<open>foo\<close>.\<close>

definition fresh_world :: world where
  "fresh_world = demo_world\<lparr>catalog_store := None\<rparr>"




text \<open>Worlds for uninstall: \<open>foo\<close> installed and its directory locked; a record entry
  whose directory is gone; a directory that no record entry knows.\<close>

definition foo_dir :: path where
  "foo_dir = [''C:'', ''AppData'', ''ravendevteam'', ''foo'']"

definition foo_entry :: entry where
  "foo_entry = \<lparr>entry_version = ''1.0'', installed_on = ''2024-01-01T00:00:00''\<rparr>"

definition locked_world :: world where
  "locked_world =
     demo_world\<lparr>dirs := dirs demo_world @ [[''C:'', ''AppData'', ''ravendevteam''], foo_dir],
                files := [(foo_dir @ [''foo.zip''], [171, 2])],
                record_store := RecordDoc [(''foo'', foo_entry)],
                rm_fails := [foo_dir]\<rparr>"

definition stale_record_world :: world where
  "stale_record_world = demo_world\<lparr>record_store := RecordDoc [(''foo'', foo_entry)]\<rparr>"

definition unrecorded_world :: world where
  "unrecorded_world =
     demo_world\<lparr>dirs := dirs demo_world @ [[''C:'', ''AppData'', ''ravendevteam''], foo_dir],
                files := [(foo_dir @ [''foo.zip''], [171, 2])]\<rparr>"

subsection \<open>Sequential runs, as the specification words them\<close>

text \<open>The specification speaks of packages processed one after the other, of a prefix
  that went through and of a remainder left untouched. \<open>runs_clean f w ns\<close> says that the
  calls of \<open>f\<close> on the names \<open>ns\<close>, each in the world the former left, all return without
  \<^verbatim>\<open>handle_error\<close>; \<open>world_after f w ns\<close> is the world they leave.\<close>

fun runs_clean ::
  "(world \<Rightarrow> string \<Rightarrow> (error + outcome) \<times> world) \<Rightarrow> world \<Rightarrow> string list \<Rightarrow> bool" where
  "runs_clean f w [] = True"
| "runs_clean f w (n # ns) =
     (case f w n of
        (Inl e, w1) \<Rightarrow> False
      | (Inr r, w1) \<Rightarrow> runs_clean f w1 ns)"

fun world_after ::
  "(world \<Rightarrow> string \<Rightarrow> (error + outcome) \<times> world) \<Rightarrow> world \<Rightarrow> string list \<Rightarrow> world" where
  "world_after f w [] = w"
| "world_after f w (n # ns) = world_after f (snd (f w n)) ns"

abbreviation install_call ::
  "'s hasher \<Rightarrow> nat \<Rightarrow> bool \<Rightarrow> world \<Rightarrow> string \<Rightarrow> (error + outcome) \<times> world" where
  "install_call H depth skip_confirmation \<equiv>
     (\<lambda>w n. install_package H depth w n skip_confirmation)"

text \<open>A world whose catalog holds \<open>foo\<close> alone.\<close>

definition solo_world :: world where
  "solo_world =
     demo_world\<lparr>catalog_store := Some (CatalogDoc \<lparr>updateurl = None, packages = [foo_pkg]\<rparr>)\<rparr>"

subsection \<open>Facts about the record store\<close>

lemma write_record_read:
  "write_record w m = Inr w' \<Longrightarrow> read_record w' = m"
  by (auto simp: write_record_def read_record_def split: sum.splits)

text \<open>
  C7. For every name, version \<open>v\<close>, timestamp \<open>t\<close> and prior state of the record
  store, the upsert of \<open>(name, v, t)\<close> followed by a load yields a mapping whose entry
  for the name is exactly \<open>{version: v, installed_on: t}\<close>; every other entry is as
  it was before.
\<close>

theorem upsert_then_load:
  "upsert_record w package_name v t = Inr w' \<Longrightarrow>
     map_of (read_record w') package_name = Some \<lparr>entry_version = v, installed_on = t\<rparr> \<and>
     (\<forall>k. k \<noteq> package_name \<longrightarrow> map_of (read_record w') k = map_of (read_record w) k)"
  by (auto simp: upsert_record_def update_conv' dest!: write_record_read)


lemma mkdir_p_no_files:
  "files w = [] \<Longrightarrow> \<exists>w1. mkdir_p w p = Inr w1"
  by (simp add: mkdir_p_def is_file_def list_ex_iff)

lemma upsert_record_succeeds:
  "files w = [] \<Longrightarrow> \<exists>w'. upsert_record w package_name v t = Inr w'"
  using mkdir_p_no_files [of w "butlast (get_record_file_path w)"]
  by (auto simp: upsert_record_def write_record_def)

theorem upsert_then_load_witness:
  "\<exists>w'. upsert_record demo_world ''foo'' ''1.0'' ''2024-01-01'' = Inr w' \<and>
        map_of (read_record w') ''foo''
          = Some \<lparr>entry_version = ''1.0'', installed_on = ''2024-01-01''\<rparr> \<and>
        (\<forall>k. k \<noteq> ''foo'' \<longrightarrow> map_of (read_record w') k = map_of (read_record demo_world) k)"
proof -
  have "files demo_world = []"
    by (simp add: demo_world_def)
  then obtain w' where h: "upsert_record demo_world ''foo'' ''1.0'' ''2024-01-01'' = Inr w'"
    using upsert_record_succeeds by blast
  from upsert_then_load [OF h] h show ?thesis
    by blast
qed

subsection \<open>Facts about the integrity verifier\<close>

lemma fold_read_blocks:
  assumes "\<And>s a b. h_update H (h_update H s a) b = h_update H s (a @ b)"
    and "\<And>s. h_update H s [] = s"
  shows "0 < n \<Longrightarrow>
     fold (\<lambda>byte_block s. h_update H s byte_block) (read_blocks n bs) s = h_update H s bs"
proof (induction n bs arbitrary: s rule: read_blocks.induct)
  case (1 n bs)
  show ?case
  proof (cases "bs = []")
    case True
    then show ?thesis by (simp add: assms(2))
  next
    case False
    with "1.prems" have
      "fold (\<lambda>byte_block s. h_update H s byte_block) (read_blocks n (drop n bs))
         (h_update H s (take n bs)) = h_update H (h_update H s (take n bs)) (drop n bs)"
      using "1.IH" by simp
    with False "1.prems" show ?thesis
      by (subst read_blocks.simps) (simp add: assms(1))
  qed
qed

text \<open>
  C6. For every file and every expected digest string, the integrity check returns
  true exactly when the hexadecimal digest of the file's whole content, although computed
  block by block, is string-equal to the expected value; an expected digest that differs
  from it only in letter case yields false. (The hasher is the library's; what the check
  needs of it is that feeding the blocks one after the other is feeding their
  concatenation.)
\<close>

theorem validate_checksum_exact:
  assumes "map_of (files w) file_path = Some content"
    and "\<And>s a b. h_update H (h_update H s a) b = h_update H s (a @ b)"
    and "\<And>s. h_update H s [] = s"
  shows "validate_checksum H w file_path expected_hash
           = Inr (h_hexdigest H (h_update H (h_new H) content) = expected_hash)
         \<and> (expected_hash \<noteq> h_hexdigest H (h_update H (h_new H) content)
              \<and> py_lower expected_hash = py_lower (h_hexdigest H (h_update H (h_new H) content))
            \<longrightarrow> validate_checksum H w file_path expected_hash = Inr False)"
  using assms(1) fold_read_blocks [of H 4096 content "h_new H", OF assms(2,3)]
  by (auto simp: validate_checksum_def stream_digest_def)


theorem validate_checksum_exact_witness:
  "validate_checksum hex_hasher one_file_world [''C:'', ''f.bin''] ''ab02'' = Inr True \<and>
   validate_checksum hex_hasher one_file_world [''C:'', ''f.bin''] ''AB02'' = Inr False"
proof -
  have f: "map_of (files one_file_world) [''C:'', ''f.bin''] = Some [171, 2]"
    by (simp add: one_file_world_def)
  have a: "\<And>s a b. h_update hex_hasher (h_update hex_hasher s a) b = h_update hex_hasher s (a @ b)"
    by (simp add: hex_hasher_def)
  have e: "\<And>s. h_update hex_hasher s [] = s"
    by (simp add: hex_hasher_def)
  have d: "h_hexdigest hex_hasher (h_update hex_hasher (h_new hex_hasher) [171, 2]) = ''ab02''"
    by code_simp
  show ?thesis
    using validate_checksum_exact [OF f a e, of "''ab02''"]
      validate_checksum_exact [OF f a e, of "''AB02''"]
    by (simp add: d)
qed

subsection \<open>Facts about directories, the catalog step, the prompt and the fetch\<close>


lemma lineage_length: "q \<in> set (lineage p) \<Longrightarrow> length q \<le> length p"
  by (auto simp: lineage_def)

lemma mkdir_p_frame:
  "mkdir_p w p = Inr w1 \<Longrightarrow>
     files w1 = files w \<and> record_store w1 = record_store w \<and> remote w1 = remote w \<and>
     stdin w1 = stdin w \<and> net_log w1 = net_log w \<and> catalog_store w1 = catalog_store w \<and>
     platform_system w1 = platform_system w \<and> app_root w1 = app_root w \<and>
     clock w1 = clock w \<and> ticks w1 = ticks w \<and>
     set (dirs w1) = set (dirs w) \<union> set (lineage p)"
  by (auto simp: mkdir_p_def is_dir_def app_root_def split: if_splits)


lemma ensure_frame:
  "ensure_packages_file w = (r, w0) \<Longrightarrow>
     record_store w0 = record_store w \<and> files w0 = files w \<and> stdin w0 = stdin w \<and>
     remote w0 = remote w \<and> platform_system w0 = platform_system w \<and>
     app_root w0 = app_root w \<and> clock w0 = clock w \<and> ticks w0 = ticks w"
  by (auto simp: ensure_packages_file_def Let_def mkdir_p_def app_root_def
      split: if_splits sum.splits option.splits)

lemma confirm_yes:
  assumes "skip_confirmation \<or> (\<exists>l ls. stdin w = l # ls \<and> py_lower (py_strip l) = ''y'')"
  shows "\<exists>w1. confirm w skip_confirmation = (Inr True, w1) \<and>
     files w1 = files w \<and> record_store w1 = record_store w \<and> remote w1 = remote w \<and>
     dirs w1 = dirs w \<and> net_log w1 = net_log w \<and> catalog_store w1 = catalog_store w \<and>
     platform_system w1 = platform_system w \<and> app_root w1 = app_root w"
proof (cases skip_confirmation)
  case True
  then show ?thesis by (simp add: confirm_def)
next
  case False
  with assms obtain l ls where "stdin w = l # ls" "py_lower (py_strip l) = ''y''" by blast
  with False show ?thesis by (simp add: confirm_def app_root_def)
qed




lemma ensure_present:
  "catalog_store w \<noteq> None \<Longrightarrow> ensure_packages_file w = (None, w)"
  by (simp add: ensure_packages_file_def)

lemma ensure_absent_log:
  "catalog_store w = None \<Longrightarrow> ensure_packages_file w = (r, w0) \<Longrightarrow>
     net_log w0 = net_log w @ [catalog_url] \<or> (\<exists>e. r = Some (CatalogUnavailable e) \<and> w0 = w)"
  by (auto simp: ensure_packages_file_def Let_def mkdir_p_def
      split: if_splits sum.splits option.splits)

text \<open>
  C2 (as stated, refuted). With no local catalog file, \<open>ensure_packages_file\<close> fetches
  the catalog from its URL before the platform is looked at: on \<open>fresh_world\<close> the
  install of \<open>baz\<close> fails with \<open>UnsupportedPlatform\<close> after a request to the catalog URL.
\<close>

theorem unsupported_platform_after_catalog_fetch:
  "fst (install_package hex_hasher (Suc 0) fresh_world ''baz'' True) = Inl UnsupportedPlatform
   \<and> net_log fresh_world = []
   \<and> net_log (snd (install_package hex_hasher (Suc 0) fresh_world ''baz'' True)) = [catalog_url]"
  by code_simp

text \<open>
  C2 (amended). For every descriptor whose supported-platform set does not contain the
  current platform identifier, install fails with \<open>UnsupportedPlatform\<close> in the world left
  by the catalog step: the artifact is not requested. When the local catalog file exists,
  that world is the initial one (no network access at all); when it does not, the one
  request made is the download of the catalog.
\<close>

theorem unsupported_platform_before_artifact_fetch:
  assumes ens: "ensure_packages_file w = (None, w0)"
    and cat: "load_packages w0 = Inr pkgs"
    and nm: "package_name \<noteq> ''*''"
    and pkg: "find_package pkgs package_name = Some pkg"
    and plat: "platform_system w \<notin> set (os pkg)"
  shows "install_package H (Suc depth) w package_name skip_confirmation
           = (Inl UnsupportedPlatform, w0)
         \<and> (catalog_store w \<noteq> None \<longrightarrow> w0 = w)
         \<and> (catalog_store w = None \<longrightarrow> net_log w0 = net_log w @ [catalog_url])"
proof -
  note fr = ensure_frame [OF ens]
  have "install_package H (Suc depth) w package_name skip_confirmation
          = (Inl UnsupportedPlatform, w0)"
    using ens cat nm pkg plat fr by (simp add: install_from_def)
  moreover have "catalog_store w \<noteq> None \<longrightarrow> w0 = w"
    using ens ensure_present [of w] by auto
  moreover have "catalog_store w = None \<longrightarrow> net_log w0 = net_log w @ [catalog_url]"
    using ens ensure_absent_log [of w None w0] by auto
  ultimately show ?thesis by blast
qed

theorem unsupported_platform_before_artifact_fetch_witness:
  "install_package hex_hasher (Suc 0) demo_world ''baz'' False = (Inl UnsupportedPlatform, demo_world)
   \<and> catalog_store demo_world \<noteq> None \<and> net_log demo_world = []"
proof -
  have ens: "ensure_packages_file demo_world = (None, demo_world)"
    by (simp add: ensure_packages_file_def demo_world_def)
  have cat: "load_packages demo_world = Inr [foo_pkg, bar_pkg, baz_pkg]"
    by (simp add: load_packages_def demo_world_def)
  have nm: "''baz'' \<noteq> ''*''"
    by simp
  have pkg: "find_package [foo_pkg, bar_pkg, baz_pkg] ''baz'' = Some baz_pkg"
    by code_simp
  have plat: "platform_system demo_world \<notin> set (os baz_pkg)"
    by (simp add: demo_world_def baz_pkg_def)
  show ?thesis
    using unsupported_platform_before_artifact_fetch [OF ens cat nm pkg plat, of hex_hasher 0 False]
    by (simp add: demo_world_def)
qed




subsection \<open>Facts about uninstall\<close>

lemma confirm_frame:
  "confirm w skip_confirmation = (r, w1) \<Longrightarrow>
     dirs w1 = dirs w \<and> files w1 = files w \<and> record_store w1 = record_store w \<and>
     rm_fails w1 = rm_fails w \<and> app_root w1 = app_root w"
  by (auto simp: confirm_def app_root_def split: if_splits list.splits)

lemma rmtree_error_frame:
  "dirs w1 = dirs w \<Longrightarrow> rm_fails w1 = rm_fails w \<Longrightarrow>
     rmtree w p = Inl e \<Longrightarrow> rmtree w1 p = Inl e"
  by (auto simp: rmtree_def is_dir_def split: if_splits)

text \<open>
  C4. For every uninstall invocation that reaches the recursive removal of the
  installation directory (the directory exists and the user agrees or is not asked) and
  in which that removal raises, the operation ends with \<open>UninstallFailed\<close> and the record
  store is exactly what it was: the entry of the package, if there is one, is untouched.
\<close>

theorem removal_error_keeps_record:
  assumes ex: "path_exists w (get_installation_path w package_name)"
    and conf: "skip_confirmation \<or> (\<exists>l ls. stdin w = l # ls \<and> py_lower (py_strip l) = ''y'')"
    and rm: "rmtree w (get_installation_path w package_name) = Inl e"
  shows "\<exists>w'. uninstall_package w package_name skip_confirmation = (Inl (UninstallFailed e), w')
              \<and> record_store w' = record_store w
              \<and> map_of (read_record w') package_name = map_of (read_record w) package_name"
proof -
  obtain w1 where c: "confirm w skip_confirmation = (Inr True, w1)"
    using confirm_yes [OF conf] by blast
  note cf = confirm_frame [OF c]
  have "rmtree w1 (get_installation_path w package_name) = Inl e"
    using rmtree_error_frame [OF _ _ rm, of w1] cf by simp
  then have "uninstall_package w package_name skip_confirmation = (Inl (UninstallFailed e), w1)"
    using ex c by (simp add: uninstall_package_def)
  then show ?thesis
    using cf by (simp add: read_record_def)
qed

theorem removal_error_keeps_record_witness:
  "\<exists>w'. uninstall_package locked_world ''foo'' True = (Inl (UninstallFailed OSError), w')
        \<and> record_store w' = record_store locked_world
        \<and> map_of (read_record w') ''foo'' = map_of (read_record locked_world) ''foo''"
proof -
  have ip: "get_installation_path locked_world ''foo'' = foo_dir"
    by (simp add: get_installation_path_def app_root_def locked_world_def demo_world_def foo_dir_def)
  have ex: "path_exists locked_world (get_installation_path locked_world ''foo'')"
    unfolding ip by (simp add: path_exists_def is_dir_def locked_world_def)
  have conf: "True \<or> (\<exists>l ls. stdin locked_world = l # ls \<and> py_lower (py_strip l) = ''y'')"
    by simp
  have rm: "rmtree locked_world (get_installation_path locked_world ''foo'') = Inl OSError"
    unfolding ip by (simp add: rmtree_def locked_world_def)
  show ?thesis
    by (rule removal_error_keeps_record [OF ex conf rm])
qed

lemma rmtree_removes:
  "rmtree w p = Inr w2 \<Longrightarrow> \<not> path_exists w2 p \<and> record_store w2 = record_store w
     \<and> app_root w2 = app_root w"
  by (auto simp: rmtree_def path_exists_def is_dir_def is_file_def app_root_def map_of_eq_None_iff
      split: if_splits)

lemma mkdir_p_shorter:
  "mkdir_p w q = Inr w1 \<Longrightarrow> length q < length p \<Longrightarrow> path_exists w1 p = path_exists w p"
  using lineage_length [of p q]
  by (auto simp: mkdir_p_def path_exists_def is_dir_def is_file_def split: if_splits)

lemma write_record_keeps_absent:
  assumes "write_record w m = Inr w'"
  shows "path_exists w' (get_installation_path w package_name)
           = path_exists w (get_installation_path w package_name)
         \<and> app_root w' = app_root w"
proof -
  from assms obtain w1 where m: "mkdir_p w (butlast (get_record_file_path w)) = Inr w1"
    and w': "w' = w1\<lparr>record_store := RecordDoc m\<rparr>"
    by (auto simp: write_record_def split: sum.splits)
  have "length (butlast (get_record_file_path w)) < length (get_installation_path w package_name)"
    by (simp add: get_record_file_path_def get_installation_path_def)
  from mkdir_p_shorter [OF m this]
  have "path_exists w1 (get_installation_path w package_name)
          = path_exists w (get_installation_path w package_name)" .
  moreover have "path_exists w' (get_installation_path w package_name)
          = path_exists w1 (get_installation_path w package_name)"
    by (simp add: w' path_exists_def is_dir_def is_file_def)
  moreover have "app_root w' = app_root w1"
    by (simp add: w' app_root_def)
  ultimately show ?thesis
    using mkdir_p_frame [OF m] by simp
qed

text \<open>
  C5. For every package name whose installation directory does not exist, uninstall
  fails with \<open>NotInstalled\<close>, whatever the record store holds, and leaves the world as
  it is, so that the next uninstall fails in the same way. On the path where the removal
  succeeds, a missing record entry is not an error: the call ends as \<open>Uninstalled\<close>. And
  after any successful uninstall the directory is gone, so that a second uninstall yields
  \<open>NotInstalled\<close>.
\<close>

theorem uninstall_not_installed:
  "(\<not> path_exists w (get_installation_path w package_name) \<longrightarrow>
      uninstall_package w package_name skip_confirmation = (Inl NotInstalled, w))
   \<and> (path_exists w (get_installation_path w package_name)
        \<and> confirm w skip_confirmation = (Inr True, w1)
        \<and> rmtree w1 (get_installation_path w package_name) = Inr w2
        \<and> map_of (read_record w) package_name = None \<longrightarrow>
      uninstall_package w package_name skip_confirmation = (Inr Uninstalled, w2))
   \<and> (uninstall_package w package_name skip_confirmation = (Inr Uninstalled, w') \<longrightarrow>
      uninstall_package w' package_name skip_again = (Inl NotInstalled, w'))"
proof (intro conjI impI)
  assume "\<not> path_exists w (get_installation_path w package_name)"
  then show "uninstall_package w package_name skip_confirmation = (Inl NotInstalled, w)"
    by (simp add: uninstall_package_def)
next
  assume a: "path_exists w (get_installation_path w package_name)
        \<and> confirm w skip_confirmation = (Inr True, w1)
        \<and> rmtree w1 (get_installation_path w package_name) = Inr w2
        \<and> map_of (read_record w) package_name = None"
  then have "record_store w2 = record_store w"
    using confirm_frame [of w skip_confirmation "Inr True" w1]
      rmtree_removes [of w1 "get_installation_path w package_name" w2] by simp
  then have "map_of (read_record w2) package_name = None"
    using a by (simp add: read_record_def)
  with a show "uninstall_package w package_name skip_confirmation = (Inr Uninstalled, w2)"
    by (simp add: uninstall_package_def)
next
  let ?ip = "get_installation_path w package_name"
  assume u: "uninstall_package w package_name skip_confirmation = (Inr Uninstalled, w')"
  then obtain wa wb where c: "confirm w skip_confirmation = (Inr True, wa)"
    and r: "rmtree wa ?ip = Inr wb"
    and w': "w' = wb \<or> (\<exists>m. write_record wb m = Inr w')"
    by (auto simp: uninstall_package_def Let_def
        split: if_splits prod.splits sum.splits bool.splits)
  note cf = confirm_frame [OF c] and rf = rmtree_removes [OF r]
  have ipb: "get_installation_path wb package_name = ?ip"
    using cf rf by (simp add: get_installation_path_def)
  have "\<not> path_exists w' ?ip \<and> app_root w' = app_root w"
    using w' rf cf write_record_keeps_absent [of wb _ w' package_name] ipb by auto
  then show "uninstall_package w' package_name skip_again = (Inl NotInstalled, w')"
    by (simp add: uninstall_package_def get_installation_path_def)
qed


theorem uninstall_not_installed_witness:
  "uninstall_package stale_record_world ''foo'' True = (Inl NotInstalled, stale_record_world)
   \<and> map_of (read_record stale_record_world) ''foo'' = Some foo_entry
   \<and> (\<exists>w2. uninstall_package unrecorded_world ''foo'' True = (Inr Uninstalled, w2)
          \<and> uninstall_package w2 ''foo'' True = (Inl NotInstalled, w2))"
proof -
  have ips: "get_installation_path stale_record_world ''foo'' = foo_dir"
    by (simp add: get_installation_path_def app_root_def stale_record_world_def demo_world_def
        foo_dir_def)
  have absent: "\<not> path_exists stale_record_world (get_installation_path stale_record_world ''foo'')"
    unfolding ips
    by (simp add: path_exists_def is_dir_def is_file_def stale_record_world_def demo_world_def
        foo_dir_def)
  have a: "uninstall_package stale_record_world ''foo'' True = (Inl NotInstalled, stale_record_world)"
    using uninstall_not_installed [of stale_record_world "''foo''" True] absent by blast
  have b: "map_of (read_record stale_record_world) ''foo'' = Some foo_entry"
    by (simp add: read_record_def stale_record_world_def)
  have ipu: "get_installation_path unrecorded_world ''foo'' = foo_dir"
    by (simp add: get_installation_path_def app_root_def unrecorded_world_def demo_world_def
        foo_dir_def)
  have ex: "path_exists unrecorded_world (get_installation_path unrecorded_world ''foo'')"
    unfolding ipu by (simp add: path_exists_def is_dir_def unrecorded_world_def)
  have c: "confirm unrecorded_world True = (Inr True, unrecorded_world)"
    by (simp add: confirm_def)
  obtain w2 where r: "rmtree unrecorded_world (get_installation_path unrecorded_world ''foo'') = Inr w2"
    unfolding ipu by (simp add: rmtree_def is_dir_def unrecorded_world_def demo_world_def)
  have n: "map_of (read_record unrecorded_world) ''foo'' = None"
    by (simp add: read_record_def unrecorded_world_def demo_world_def)
  have u: "uninstall_package unrecorded_world ''foo'' True = (Inr Uninstalled, w2)"
    using uninstall_not_installed [of unrecorded_world "''foo''" True unrecorded_world w2]
      ex c r n by blast
  have "uninstall_package w2 ''foo'' True = (Inl NotInstalled, w2)"
    using uninstall_not_installed [of unrecorded_world "''foo''" True _ _ w2 True] u by blast
  with a b u show ?thesis by blast
qed

subsection \<open>Facts about the artifact's file name\<close>








subsection \<open>Unfolding a run of install that reached the download\<close>

lemma confirm_keeps:
  "confirm w skip_confirmation = (r, w1) \<Longrightarrow>
     remote w1 = remote w \<and> platform_system w1 = platform_system w \<and>
     net_log w1 = net_log w \<and> catalog_store w1 = catalog_store w \<and>
     clock w1 = clock w \<and> ticks w1 = ticks w \<and> shortcuts w1 = shortcuts w"
  by (auto simp: confirm_def split: if_splits list.splits)





subsection \<open>Facts about a successful install\<close>










subsection \<open>Facts about the wildcard install\<close>

lemma install_each_append:
  "runs_clean f w pre \<Longrightarrow> install_each f w (pre @ rest) = install_each f (world_after f w pre) rest"
  by (induction pre arbitrary: w) (auto split: prod.splits sum.splits)

lemma install_each_first_failure:
  assumes "runs_clean f w pre" and "f (world_after f w pre) n = (Inl e, w_fail)"
  shows "install_each f w (pre @ n # post) = (Inl e, w_fail)"
  using assms by (simp add: install_each_append)

lemma install_each_all_clean:
  "runs_clean f w ns \<Longrightarrow> install_each f w ns = (Inr Finished, world_after f w ns)"
  using install_each_append [of f w ns "[]"] by simp

lemma find_package_own_name:
  "distinct (map (\<lambda>p. py_lower (name p)) pkgs) \<Longrightarrow> pkg \<in> set pkgs \<Longrightarrow>
     find_package pkgs (name pkg) = Some pkg"
  unfolding find_package_def
  by (induction pkgs) auto

lemma urlretrieve_catalog:
  "urlretrieve w u dest = (r, w') \<Longrightarrow> catalog_store w' = catalog_store w"
  by (auto simp: urlretrieve_def Let_def split: option.splits if_splits)

lemma upsert_record_catalog:
  "upsert_record w n v t = Inr w' \<Longrightarrow> catalog_store w' = catalog_store w"
  using mkdir_p_frame [of w "butlast (get_record_file_path w)"]
  by (auto simp: upsert_record_def write_record_def split: sum.splits)

lemma fetch_and_record_catalog:
  assumes "fetch_and_record H w pkg n = (r, w')"
  shows "catalog_store w' = catalog_store w"
proof -
  have m: "\<And>p w1. mkdir_p w p = Inr w1 \<Longrightarrow> catalog_store w1 = catalog_store w"
    using mkdir_p_frame by blast
  from assms show ?thesis
    by (auto simp: fetch_and_record_def Let_def create_shortcut_def
        dest!: m urlretrieve_catalog upsert_record_catalog
        split: option.splits sum.splits prod.splits bool.splits if_splits)
qed

lemma install_from_catalog:
  "install_from H w pkgs n skip_confirmation = (r, w') \<Longrightarrow> catalog_store w' = catalog_store w"
  by (auto simp: install_from_def dest!: confirm_keeps fetch_and_record_catalog
      split: option.splits sum.splits prod.splits bool.splits if_splits)

lemma install_each_catalog:
  assumes "\<And>w n r w'. f w n = (r, w') \<Longrightarrow> catalog_store w \<noteq> None \<Longrightarrow>
             catalog_store w' = catalog_store w"
  shows "install_each f w ns = (r, w') \<Longrightarrow> catalog_store w \<noteq> None \<Longrightarrow>
           catalog_store w' = catalog_store w"
proof (induction ns arbitrary: w)
  case Nil
  then show ?case by simp
next
  case (Cons n ns)
  obtain r1 w1 where f: "f w n = (r1, w1)"
    by (cases "f w n")
  with Cons.prems assms have c: "catalog_store w1 = catalog_store w"
    by blast
  show ?case
  proof (cases r1)
    case (Inl e)
    with f Cons.prems c show ?thesis by simp
  next
    case (Inr x)
    with f Cons.prems have "install_each f w1 ns = (r, w')" by simp
    with Cons.IH [of w1] Cons.prems c show ?thesis by simp
  qed
qed

lemma install_package_catalog:
  "install_package H depth w n skip_confirmation = (r, w') \<Longrightarrow> catalog_store w \<noteq> None \<Longrightarrow>
     catalog_store w' = catalog_store w"
proof (induction depth arbitrary: w n r w')
  case 0
  then show ?case by simp
next
  case (Suc depth)
  from Suc.prems have ens: "ensure_packages_file w = (None, w)"
    by (simp add: ensure_present)
  show ?case
  proof (cases "load_packages w")
    case (Inl e)
    with Suc.prems ens show ?thesis by simp
  next
    case (Inr pkgs)
    show ?thesis
    proof (cases "n = ''*''")
      case True
      with Suc.prems ens Inr have
        "install_each (install_call H depth skip_confirmation) w (map name pkgs) = (r, w')"
        by simp
      then show ?thesis
        using install_each_catalog [of "install_call H depth skip_confirmation"] Suc.IH Suc.prems(2)
        by blast
    next
      case False
      with Suc.prems ens Inr show ?thesis
        by (simp add: install_from_catalog)
    qed
  qed
qed


lemma world_after_catalog:
  "catalog_store w \<noteq> None \<Longrightarrow>
     catalog_store (world_after (install_call H depth skip_confirmation) w ns) = catalog_store w"
proof (induction ns arbitrary: w)
  case Nil
  then show ?case by simp
next
  case (Cons n ns)
  have "catalog_store (snd (install_package H depth w n skip_confirmation)) = catalog_store w"
    using install_package_catalog [of H depth w n skip_confirmation] Cons.prems
    by (cases "install_package H depth w n skip_confirmation") auto
  with Cons show ?case by simp
qed

text \<open>
  C8. Invoked with the wildcard token, install runs the install of every descriptor of
  the catalog, by name, in catalog order, one after the other, each with the caller's
  confirmation policy, and each of these calls reads the same catalog. The first call
  that fails ends the whole run with its error, in the world that call left: the
  packages before it have been processed, the packages after it have not been touched.
  When no call fails, the run ends in the world left by the last one. With names that
  are distinct up to letter case, each name resolves to its own descriptor.
\<close>

theorem wildcard_in_order_fail_fast:
  assumes ens: "ensure_packages_file w = (None, w0)"
    and cat: "load_packages w0 = Inr pkgs"
  shows "install_package H (Suc (Suc depth)) w ''*'' skip_confirmation
           = install_each (install_call H (Suc depth) skip_confirmation) w0 (map name pkgs)
         \<and> (\<forall>ns. load_packages (world_after (install_call H (Suc depth) skip_confirmation) w0 ns)
                  = Inr pkgs)
         \<and> (map name pkgs = pre @ n # post
              \<and> runs_clean (install_call H (Suc depth) skip_confirmation) w0 pre
              \<and> install_package H (Suc depth)
                   (world_after (install_call H (Suc depth) skip_confirmation) w0 pre) n
                   skip_confirmation = (Inl e, w_fail) \<longrightarrow>
            install_package H (Suc (Suc depth)) w ''*'' skip_confirmation = (Inl e, w_fail))
         \<and> (runs_clean (install_call H (Suc depth) skip_confirmation) w0 (map name pkgs) \<longrightarrow>
            install_package H (Suc (Suc depth)) w ''*'' skip_confirmation
              = (Inr Finished,
                 world_after (install_call H (Suc depth) skip_confirmation) w0 (map name pkgs)))
         \<and> (distinct (map (\<lambda>p. py_lower (name p)) pkgs) \<and> pkg \<in> set pkgs \<longrightarrow>
            find_package pkgs (name pkg) = Some pkg)"
proof -
  let ?f = "install_call H (Suc depth) skip_confirmation"
  have run: "install_package H (Suc (Suc depth)) w ''*'' skip_confirmation
      = install_each ?f w0 (map name pkgs)"
    using ens cat by simp
  from cat have present: "catalog_store w0 \<noteq> None"
    by (auto simp: load_packages_def split: option.splits)
  have same: "\<forall>ns. load_packages (world_after ?f w0 ns) = Inr pkgs"
    using world_after_catalog [OF present, of H "Suc depth" skip_confirmation] cat
    by (simp add: load_packages_def)
  have fail: "map name pkgs = pre @ n # post \<and> runs_clean ?f w0 pre
      \<and> ?f (world_after ?f w0 pre) n = (Inl e, w_fail) \<longrightarrow>
      install_package H (Suc (Suc depth)) w ''*'' skip_confirmation = (Inl e, w_fail)"
    using install_each_first_failure [of ?f w0 pre n e w_fail post] run by auto
  have clean: "runs_clean ?f w0 (map name pkgs) \<longrightarrow>
      install_package H (Suc (Suc depth)) w ''*'' skip_confirmation
        = (Inr Finished, world_after ?f w0 (map name pkgs))"
    using install_each_all_clean [of ?f w0 "map name pkgs"] run by auto
  have own: "distinct (map (\<lambda>p. py_lower (name p)) pkgs) \<and> pkg \<in> set pkgs \<longrightarrow>
      find_package pkgs (name pkg) = Some pkg"
    using find_package_own_name by blast
  from run same fail clean own show ?thesis
    by blast
qed


theorem wildcard_in_order_fail_fast_witness:
  "install_package hex_hasher (Suc (Suc 0)) demo_world ''*'' True
     = (Inl IntegrityFailure,
        snd (install_package hex_hasher (Suc 0)
               (world_after (install_call hex_hasher (Suc 0) True) demo_world [''foo''])
               ''bar'' True))
   \<and> map name [foo_pkg, bar_pkg, baz_pkg] = [''foo''] @ ''bar'' # [''baz'']
   \<and> map fst (read_record (snd (install_package hex_hasher (Suc (Suc 0)) demo_world ''*'' True)))
      = [''foo'']
   \<and> net_log (snd (install_package hex_hasher (Suc (Suc 0)) demo_world ''*'' True))
      = [''http://h/foo.zip'', ''http://h/bar.exe'']
   \<and> install_package hex_hasher (Suc (Suc 0)) solo_world ''*'' True
      = (Inr Finished, world_after (install_call hex_hasher (Suc 0) True) solo_world [''foo''])
   \<and> find_package [foo_pkg, bar_pkg, baz_pkg] (name bar_pkg) = Some bar_pkg"
proof -
  let ?f = "install_call hex_hasher (Suc 0) True"
  have ens: "ensure_packages_file demo_world = (None, demo_world)"
    by (simp add: ensure_packages_file_def demo_world_def)
  have cat: "load_packages demo_world = Inr [foo_pkg, bar_pkg, baz_pkg]"
    by (simp add: load_packages_def demo_world_def)
  have names: "map name [foo_pkg, bar_pkg, baz_pkg] = [''foo''] @ ''bar'' # [''baz'']"
    by (simp add: foo_pkg_def bar_pkg_def baz_pkg_def)
  have clean: "runs_clean ?f demo_world [''foo'']"
    by code_simp
  have "fst (install_package hex_hasher (Suc 0) (world_after ?f demo_world [''foo'']) ''bar'' True)
      = Inl IntegrityFailure"
    by code_simp
  then have bad: "install_package hex_hasher (Suc 0) (world_after ?f demo_world [''foo'']) ''bar'' True
      = (Inl IntegrityFailure,
         snd (install_package hex_hasher (Suc 0) (world_after ?f demo_world [''foo'']) ''bar'' True))"
    by (metis prod.collapse)
  have dist: "distinct (map (\<lambda>p. py_lower (name p)) [foo_pkg, bar_pkg, baz_pkg])"
    by code_simp
  have mem: "bar_pkg \<in> set [foo_pkg, bar_pkg, baz_pkg]"
    by simp
  note t = wildcard_in_order_fail_fast [OF ens cat, of hex_hasher 0 True "[''foo'']" "''bar''"
      "[''baz'']" IntegrityFailure
      "snd (install_package hex_hasher (Suc 0) (world_after ?f demo_world [''foo'']) ''bar'' True)"
      bar_pkg]
  have a: "install_package hex_hasher (Suc (Suc 0)) demo_world ''*'' True
     = (Inl IntegrityFailure,
        snd (install_package hex_hasher (Suc 0) (world_after ?f demo_world [''foo'']) ''bar'' True))"
    using t names clean bad by blast
  have b: "find_package [foo_pkg, bar_pkg, baz_pkg] (name bar_pkg) = Some bar_pkg"
    using t dist mem by blast
  have ens1: "ensure_packages_file solo_world = (None, solo_world)"
    by (simp add: ensure_packages_file_def solo_world_def)
  have cat1: "load_packages solo_world = Inr [foo_pkg]"
    by (simp add: load_packages_def solo_world_def)
  have clean1: "runs_clean ?f solo_world (map name [foo_pkg])"
    by code_simp
  have nm1: "map name [foo_pkg] = [''foo'']"
    by (simp add: foo_pkg_def)
  have "install_package hex_hasher (Suc (Suc 0)) solo_world ''*'' True
      = (Inr Finished, world_after ?f solo_world (map name [foo_pkg]))"
    using wildcard_in_order_fail_fast [OF ens1 cat1, of hex_hasher 0 True] clean1
    by blast
  then have c: "install_package hex_hasher (Suc (Suc 0)) solo_world ''*'' True
      = (Inr Finished, world_after ?f solo_world [''foo''])"
    by (simp only: nm1)
  have d: "map fst (read_record (snd (install_package hex_hasher (Suc (Suc 0)) demo_world ''*'' True)))
      = [''foo'']"
    by code_simp
  have e: "net_log (snd (install_package hex_hasher (Suc (Suc 0)) demo_world ''*'' True))
      = [''http://h/foo.zip'', ''http://h/bar.exe'']"
    by code_simp
  from a names d e c b show ?thesis
    by blast
qed

end
